theory Spec2Isabelle
  imports Main
begin

section \<open>Values exchanged with the database driver\<close>

text \<open>
  The server of \<^verbatim>\<open>src/index.ts\<close> talks to a MySQL server through the
  \<^verbatim>\<open>mysql2/promise\<close> driver and answers its client with JSON objects. Rows,
  result headers and the handlers' answers are JSON values (an object is the list of its
  keys and values in order); a rejected promise or a \<^verbatim>\<open>throw\<close> carries an error
  value.
\<close>

datatype json =
    JNull
  | JBool bool
  | JNum int
  | JStr string
  | JArr "json list"
  | JObj "(string \<times> json) list"

datatype error =
    DriverError string
  | Error string
  | TypeError string

text \<open>
  The calls the handlers make on the pool and on a leased connection:
  \<^verbatim>\<open>pool.getConnection()\<close>, \<^verbatim>\<open>connection.query(sql)\<close>,
  \<^verbatim>\<open>connection.query(sql, values)\<close> (a value \<open>None\<close> is JavaScript's
  \<^verbatim>\<open>undefined\<close>), \<^verbatim>\<open>connection.beginTransaction()\<close>,
  \<^verbatim>\<open>connection.rollback()\<close> and \<^verbatim>\<open>connection.release()\<close>.
\<close>

datatype call =
    GetConnection
  | Query string
  | QueryValues string "string option list"
  | BeginTransaction
  | Rollback
  | Release

text \<open>
  The driver and the database server behind it are not part of the repository: they are a
  parameter, a function from a call and the state of the server (its tables and the
  session of the leased connection) to the outcome of the promise (\<open>Inl\<close> a rejection)
  and the state afterwards.
\<close>

type_synonym 's driver = "call \<Rightarrow> 's \<Rightarrow> (error + json) \<times> 's"

text \<open>
  The state a handler runs in: the server, the pool's count of leases handed out and of
  leases returned, the calls made so far in order, and what \<^verbatim>\<open>console.warn\<close> has
  printed.
\<close>

record 's world =
  server :: 's
  acquired :: nat
  released :: nat
  calls :: "call list"
  warnings :: "error list"

definition leased :: "'s world \<Rightarrow> nat" where
  "leased w = acquired w - released w"

definition pool_getConnection :: "'s driver \<Rightarrow> 's world \<Rightarrow> (error + unit) \<times> 's world" where
  "pool_getConnection drv w =
     (case drv GetConnection (server w) of
        (Inl e, s) \<Rightarrow> (Inl e, w\<lparr>server := s, calls := calls w @ [GetConnection]\<rparr>)
      | (Inr _, s) \<Rightarrow>
          (Inr (), w\<lparr>server := s, acquired := acquired w + 1,
                     calls := calls w @ [GetConnection]\<rparr>))"

definition connection_call :: "'s driver \<Rightarrow> call \<Rightarrow> 's world \<Rightarrow> (error + json) \<times> 's world" where
  "connection_call drv c w =
     (case drv c (server w) of (r, s) \<Rightarrow> (r, w\<lparr>server := s, calls := calls w @ [c]\<rparr>))"

text \<open>\<^verbatim>\<open>connection.release()\<close> is synchronous and returns nothing.\<close>

definition connection_release :: "'s driver \<Rightarrow> 's world \<Rightarrow> 's world" where
  "connection_release drv w =
     (case drv Release (server w) of
        (_, s) \<Rightarrow> w\<lparr>server := s, released := released w + 1, calls := calls w @ [Release]\<rparr>)"

definition console_warn :: "error \<Rightarrow> 's world \<Rightarrow> 's world" where
  "console_warn e w = w\<lparr>warnings := warnings w @ [e]\<rparr>"

section \<open>The JavaScript runtime\<close>

text \<open>
  A parsed \<^verbatim>\<open>URL\<close> object, by its getters. \<open>port\<close> is \<open>None\<close> where the getter
  returns the empty string. \<open>opaque_path\<close> holds for a URL such as \<^verbatim>\<open>mysql:db\<close>,
  which has no authority and whose path does not start with a slash.
\<close>

record url =
  protocol :: string
  username :: string
  password :: string
  hostname :: string
  port :: "nat option"
  pathname :: string
  search :: string
  hash :: string
  opaque_path :: bool

text \<open>
  The setters follow the URL Standard. A URL cannot have a username, password or port when
  its host is null or empty or its scheme is \<^verbatim>\<open>file\<close>: the username and password
  setters then return without a change. The pathname setter returns without a change on a
  URL with an opaque path. The protocol setter does not move a URL between the special
  schemes and the others. The values the program assigns (\<^verbatim>\<open>"/mysql"\<close>,
  \<^verbatim>\<open>"root"\<close>, \<^verbatim>\<open>""\<close>, \<^verbatim>\<open>"mysql:"\<close>) are stored as they are.
\<close>

definition special_scheme :: "string \<Rightarrow> bool" where
  "special_scheme p \<longleftrightarrow> p \<in> set [''ftp:'', ''file:'', ''http:'', ''https:'', ''ws:'', ''wss:'']"

definition cannot_have_credentials :: "url \<Rightarrow> bool" where
  "cannot_have_credentials u \<longleftrightarrow> hostname u = '''' \<or> protocol u = ''file:''"

definition set_pathname :: "url \<Rightarrow> string \<Rightarrow> url" where
  "set_pathname u v = (if opaque_path u then u else u\<lparr>pathname := v\<rparr>)"

definition set_username :: "url \<Rightarrow> string \<Rightarrow> url" where
  "set_username u v = (if cannot_have_credentials u then u else u\<lparr>username := v\<rparr>)"

definition set_password :: "url \<Rightarrow> string \<Rightarrow> url" where
  "set_password u v = (if cannot_have_credentials u then u else u\<lparr>password := v\<rparr>)"

definition set_protocol :: "url \<Rightarrow> string \<Rightarrow> url" where
  "set_protocol u v =
     (if special_scheme (protocol u) \<noteq> special_scheme v then u else u\<lparr>protocol := v\<rparr>)"

text \<open>
  The rest of the runtime is a parameter of the handlers: \<^verbatim>\<open>new URL(s)\<close> (\<open>None\<close>
  where it throws), \<^verbatim>\<open>new URL(rel, base).href\<close> (\<open>None\<close> where the constructor
  throws), \<^verbatim>\<open>JSON.stringify(v, null, 2)\<close>, and the string a template literal
  substitutes for a value (\<open>None\<close> is \<^verbatim>\<open>undefined\<close>).
\<close>

record runtime =
  URL_new :: "string \<Rightarrow> url option"
  URL_href :: "string \<Rightarrow> url \<Rightarrow> string option"
  JSON_stringify :: "json \<Rightarrow> string"
  template :: "json option \<Rightarrow> string"

text \<open>\<^verbatim>\<open>s.split(c)\<close> for a one-character separator: never the empty array.\<close>

fun str_split :: "char \<Rightarrow> string \<Rightarrow> string list" where
  "str_split c [] = [[]]"
| "str_split c (x # xs) =
     (if x = c then [] # str_split c xs
      else (case str_split c xs of [] \<Rightarrow> [[x]] | y # ys \<Rightarrow> (x # y) # ys))"

text \<open>\<^verbatim>\<open>a.pop()\<close>: the last element (\<^verbatim>\<open>undefined\<close> on the empty array) and the array left.\<close>

definition pop :: "'a list \<Rightarrow> 'a option \<times> 'a list" where
  "pop xs = (if xs = [] then (None, []) else (Some (last xs), butlast xs))"

text \<open>
  \<^verbatim>\<open>row.key\<close>: a TypeError on \<^verbatim>\<open>null\<close>, the value of the key on an object,
  \<^verbatim>\<open>undefined\<close> when the key is absent or the row is no object.
\<close>

definition property :: "json \<Rightarrow> string \<Rightarrow> error + json option" where
  "property row k =
     (case row of
        JNull \<Rightarrow> Inl (TypeError ''Cannot read properties of null'')
      | JObj kvs \<Rightarrow> Inr (map_of kvs k)
      | _ \<Rightarrow> Inr None)"

text \<open>\<^verbatim>\<open>rows.map(f)\<close> where \<open>f\<close> may throw: the first exception ends the loop.\<close>

fun map_throwing :: "('a \<Rightarrow> error + 'b) \<Rightarrow> 'a list \<Rightarrow> error + 'b list" where
  "map_throwing f [] = Inr []"
| "map_throwing f (x # xs) =
     (case f x of
        Inl e \<Rightarrow> Inl e
      | Inr y \<Rightarrow> (case map_throwing f xs of Inl e \<Rightarrow> Inl e | Inr ys \<Rightarrow> Inr (y # ys)))"

section \<open>Startup: the connection descriptor\<close>

text \<open>
  Lines 32 to 60. \<^verbatim>\<open>databaseUrl\<close> is only ever read through \<^verbatim>\<open>new URL\<close>, so it
  is modelled by the URL it parses to; \<^verbatim>\<open>new URL(u.toString())\<close> is \<open>u\<close>.
  The test \<^verbatim>\<open>!url.username\<close> reads the object whose pathname may just have been set.
\<close>

definition databaseUrl_defaults :: "url \<Rightarrow> url" where
  "databaseUrl_defaults url =
     (let url1 = (if pathname url = '''' \<or> pathname url = ''/''
                  then set_pathname url ''/mysql'' else url)
      in if username url1 = '''' then set_username url1 ''root'' else url1)"

text \<open>Lines 26 to 60: \<open>Inl 1\<close> is \<^verbatim>\<open>process.exit(1)\<close>.\<close>

definition resolve_databaseUrl :: "runtime \<Rightarrow> string list \<Rightarrow> nat + url" where
  "resolve_databaseUrl rt args =
     (case args of
        [] \<Rightarrow> Inl 1
      | a # _ \<Rightarrow>
          (case URL_new rt a of
             None \<Rightarrow> Inl 1
           | Some url \<Rightarrow> Inr (databaseUrl_defaults url)))"

definition resourceBaseUrl :: "url \<Rightarrow> url" where
  "resourceBaseUrl databaseUrl = set_password (set_protocol databaseUrl ''mysql:'') ''''"

record connection_config =
  host :: string
  port' :: nat
  user :: string
  password' :: string
  database :: string

text \<open>\<^verbatim>\<open>pathname.replace(/^\//, "")\<close>\<close>

definition strip_slash :: "string \<Rightarrow> string" where
  "strip_slash p = (case p of [] \<Rightarrow> [] | c # r \<Rightarrow> if c = CHR ''/'' then r else p)"

definition connectionConfig :: "url \<Rightarrow> connection_config" where
  "connectionConfig url =
     \<lparr>host = hostname url,
      port' = (case port url of None \<Rightarrow> 3306 | Some p \<Rightarrow> p),
      user = username url,
      password' = password url,
      database = strip_slash (pathname url)\<rparr>"

definition SCHEMA_PATH :: string where
  "SCHEMA_PATH = ''schema''"

section \<open>Listing the resources\<close>

definition table_resource :: "runtime \<Rightarrow> url \<Rightarrow> json \<Rightarrow> error + json" where
  "table_resource rt base row =
     (case property row ''table_name'' of
        Inl e \<Rightarrow> Inl e
      | Inr table_name \<Rightarrow>
          (case URL_href rt (template rt table_name @ ''/'' @ SCHEMA_PATH) base of
             None \<Rightarrow> Inl (TypeError ''Invalid URL'')
           | Some href \<Rightarrow>
               Inr (JObj [(''uri'', JStr href),
                          (''mimeType'', JStr ''application/json''),
                          (''name'', JStr ([CHR 0x22] @ template rt table_name @ [CHR 0x22]
                                           @ '' database schema''))])))"

definition ListResources_try :: "runtime \<Rightarrow> 's driver \<Rightarrow> connection_config \<Rightarrow> url \<Rightarrow> 's world \<Rightarrow> (error + json) \<times> 's world" where
  "ListResources_try rt drv cfg base w =
     (case connection_call drv
             (QueryValues ''SELECT TABLE_NAME as table_name FROM information_schema.tables WHERE table_schema = ?''
                [Some (database cfg)]) w of
        (Inl e, w1) \<Rightarrow> (Inl e, w1)
      | (Inr rows, w1) \<Rightarrow>
          (case rows of
             JArr rs \<Rightarrow>
               (case map_throwing (table_resource rt base) rs of
                  Inl e \<Rightarrow> (Inl e, w1)
                | Inr resources \<Rightarrow> (Inr (JObj [(''resources'', JArr resources)]), w1))
           | JNull \<Rightarrow> (Inl (TypeError ''Cannot read properties of null''), w1)
           | _ \<Rightarrow> (Inl (TypeError ''rows.map is not a function''), w1)))"

definition ListResources :: "runtime \<Rightarrow> 's driver \<Rightarrow> connection_config \<Rightarrow> url \<Rightarrow> 's world \<Rightarrow> (error + json) \<times> 's world" where
  "ListResources rt drv cfg base w =
     (case pool_getConnection drv w of
        (Inl e, w0) \<Rightarrow> (Inl e, w0)
      | (Inr _, w0) \<Rightarrow>
          (case ListResources_try rt drv cfg base w0 of
             (r, w1) \<Rightarrow> (r, connection_release drv w1)))"

section \<open>Reading a resource\<close>

definition ReadResource_try :: "runtime \<Rightarrow> 's driver \<Rightarrow> connection_config \<Rightarrow> string \<Rightarrow> string option \<Rightarrow> 's world \<Rightarrow> (error + json) \<times> 's world" where
  "ReadResource_try rt drv cfg uri tableName w =
     (case connection_call drv
             (QueryValues ''SELECT COLUMN_NAME as column_name, DATA_TYPE as data_type FROM information_schema.columns WHERE table_name = ? AND table_schema = ?''
                [tableName, Some (database cfg)]) w of
        (Inl e, w1) \<Rightarrow> (Inl e, w1)
      | (Inr rows, w1) \<Rightarrow>
          (Inr (JObj [(''contents'',
                  JArr [JObj [(''uri'', JStr uri),
                              (''mimeType'', JStr ''application/json''),
                              (''text'', JStr (JSON_stringify rt rows))]])]), w1))"

definition ReadResource :: "runtime \<Rightarrow> 's driver \<Rightarrow> connection_config \<Rightarrow> string \<Rightarrow> 's world \<Rightarrow> (error + json) \<times> 's world" where
  "ReadResource rt drv cfg uri w =
     (case URL_new rt uri of
        None \<Rightarrow> (Inl (TypeError ''Invalid URL''), w)
      | Some resourceUrl \<Rightarrow>
          (case pop (str_split CHR ''/'' (pathname resourceUrl)) of
             (schema, pathComponents) \<Rightarrow>
               (case pop pathComponents of
                  (tableName, _) \<Rightarrow>
                    if schema \<noteq> Some SCHEMA_PATH then (Inl (Error ''Invalid resource URI''), w)
                    else
                      (case pool_getConnection drv w of
                         (Inl e, w0) \<Rightarrow> (Inl e, w0)
                       | (Inr _, w0) \<Rightarrow>
                           (case ReadResource_try rt drv cfg uri tableName w0 of
                              (r, w1) \<Rightarrow> (r, connection_release drv w1))))))"

section \<open>The query tool\<close>

abbreviation SET_READ_ONLY :: call where
  "SET_READ_ONLY \<equiv> Query ''SET SESSION TRANSACTION READ ONLY''"

text \<open>The \<^verbatim>\<open>try\<close> block of lines 155 to 167; its \<^verbatim>\<open>catch\<close> rethrows the error it caught.\<close>

definition CallTool_try :: "runtime \<Rightarrow> 's driver \<Rightarrow> string \<Rightarrow> 's world \<Rightarrow> (error + json) \<times> 's world" where
  "CallTool_try rt drv sql w =
     (case connection_call drv SET_READ_ONLY w of
        (Inl e, w1) \<Rightarrow> (Inl e, w1)
      | (Inr _, w1) \<Rightarrow>
          (case connection_call drv BeginTransaction w1 of
             (Inl e, w2) \<Rightarrow> (Inl e, w2)
           | (Inr _, w2) \<Rightarrow>
               (case connection_call drv (Query sql) w2 of
                  (Inl e, w3) \<Rightarrow> (Inl e, w3)
                | (Inr rows, w3) \<Rightarrow>
                    (Inr (JObj [(''content'',
                            JArr [JObj [(''type'', JStr ''text''),
                                        (''text'', JStr (JSON_stringify rt rows))]]),
                          (''isError'', JBool False)]), w3))))"

text \<open>The \<^verbatim>\<open>finally\<close> block of lines 168 to 175.\<close>

definition CallTool_finally :: "'s driver \<Rightarrow> 's world \<Rightarrow> 's world" where
  "CallTool_finally drv w =
     (case connection_call drv Rollback w of
        (Inl e, w1) \<Rightarrow> connection_release drv (console_warn e w1)
      | (Inr _, w1) \<Rightarrow> connection_release drv w1)"

definition CallTool :: "runtime \<Rightarrow> 's driver \<Rightarrow> string \<Rightarrow> string \<Rightarrow> 's world \<Rightarrow> (error + json) \<times> 's world" where
  "CallTool rt drv name sql w =
     (if name = ''query'' then
        (case pool_getConnection drv w of
           (Inl e, w0) \<Rightarrow> (Inl e, w0)
         | (Inr _, w0) \<Rightarrow>
             (case CallTool_try rt drv sql w0 of
                (r, w1) \<Rightarrow> (r, CallTool_finally drv w1)))
      else (Inl (Error (''Unknown tool: '' @ name)), w))"

section \<open>The contract of the database server\<close>

text \<open>
  Modelled from the spec: the database server, which the repository only calls. The spec
  requires of it "a server-side session-scoped read-only mode and standard transaction
  begin/commit/rollback support", the mode being "a database-server-enforced setting that
  rejects write operations for the duration of a connection/session". For an observation
  \<open>tables\<close> of the rows of every table and a predicate \<open>ro\<close> that the session rejects
  writes: connecting, setting the mode, beginning, rolling back and releasing leave the
  tables as they are; a successful \<^verbatim>\<open>SET SESSION TRANSACTION READ ONLY\<close> puts the
  session in the mode; beginning a transaction keeps it; and no statement run in the mode
  changes a table.
\<close>

definition read_only_contract :: "'s driver \<Rightarrow> ('s \<Rightarrow> bool) \<Rightarrow> ('s \<Rightarrow> 'd) \<Rightarrow> bool" where
  "read_only_contract drv ro tables \<longleftrightarrow>
     (\<forall>s. tables (snd (drv GetConnection s)) = tables s) \<and>
     (\<forall>s. tables (snd (drv SET_READ_ONLY s)) = tables s) \<and>
     (\<forall>s. \<not> isl (fst (drv SET_READ_ONLY s)) \<longrightarrow> ro (snd (drv SET_READ_ONLY s))) \<and>
     (\<forall>s. tables (snd (drv BeginTransaction s)) = tables s) \<and>
     (\<forall>s. ro s \<longrightarrow> ro (snd (drv BeginTransaction s))) \<and>
     (\<forall>s sql. ro s \<longrightarrow> tables (snd (drv (Query sql) s)) = tables s) \<and>
     (\<forall>s. tables (snd (drv Rollback s)) = tables s) \<and>
     (\<forall>s. tables (snd (drv Release s)) = tables s)"

section \<open>A server and a runtime to run the handlers on\<close>

text \<open>
  A small server for running the handlers on concrete requests: one table, the session's
  access mode, and a switch that makes rollbacks fail. It knows the two statements that set
  the access mode, one insertion and one selection, and rejects every other text.
\<close>

record session =
  table_t :: "int list"
  read_only :: bool
  rollback_fails :: bool

definition test_server :: "session driver" where
  "test_server c s =
     (case c of
        GetConnection \<Rightarrow> (Inr JNull, s)
      | Query sql \<Rightarrow>
          if sql = ''SET SESSION TRANSACTION READ ONLY'' then (Inr JNull, s\<lparr>read_only := True\<rparr>)
          else if sql = ''SET SESSION TRANSACTION READ WRITE'' then (Inr JNull, s\<lparr>read_only := False\<rparr>)
          else if sql = ''SELECT 1 AS a, 2 AS b''
            then (Inr (JArr [JObj [(''a'', JNum 1), (''b'', JNum 2)]]), s)
          else if sql = ''INSERT INTO t VALUES (1)''
            then (if read_only s
                  then (Inl (DriverError ''Cannot execute statement in a READ ONLY transaction.''), s)
                  else (Inr JNull, s\<lparr>table_t := table_t s @ [1]\<rparr>))
          else (Inl (DriverError ''You have an error in your SQL syntax''), s)
      | QueryValues sql vs \<Rightarrow> (Inr (JArr [JObj [(''table_name'', JStr ''orders'')]]), s)
      | BeginTransaction \<Rightarrow> (Inr JNull, s)
      | Rollback \<Rightarrow>
          if rollback_fails s then (Inl (DriverError ''Connection lost''), s) else (Inr JNull, s)
      | Release \<Rightarrow> (Inr JNull, s))"

definition test_world :: "bool \<Rightarrow> session world" where
  "test_world rf =
     \<lparr>server = \<lparr>table_t = [7], read_only = False, rollback_fails = rf\<rparr>,
      acquired = 0, released = 0, calls = [], warnings = []\<rparr>"

text \<open>
  A runtime for the same purpose. \<open>test_URL\<close> is the parse of a URL of the documented
  form \<^verbatim>\<open>mysql://root@localhost/<path>\<close>; \<open>test_URL_new\<close> knows two such URLs
  and two that \<^verbatim>\<open>new URL\<close> accepts without a host, \<^verbatim>\<open>mysql:///shop\<close> (an
  empty host) and \<^verbatim>\<open>mysql:\<close> (an opaque, empty path);
  \<open>test_URL_href\<close> resolves a relative path of plain segments against a base that has a
  host; \<open>stringify\<close> is \<^verbatim>\<open>JSON.stringify\<close> with an indentation of two spaces and
  \<open>ToString\<close> the conversion a template literal applies, both on integers for numbers.
\<close>

definition test_URL :: "string \<Rightarrow> url" where
  "test_URL path =
     \<lparr>protocol = ''mysql:'', username = ''root'', password = '''', hostname = ''localhost'',
      port = None, pathname = path, search = '''', hash = '''', opaque_path = False\<rparr>"

definition test_URL_new :: "string \<Rightarrow> url option" where
  "test_URL_new s =
     (if s = ''mysql://root@localhost/orders/schema'' then Some (test_URL ''/orders/schema'')
      else if s = ''mysql://root@localhost/orders/rows'' then Some (test_URL ''/orders/rows'')
      else if s = ''mysql:///shop''
        then Some \<lparr>protocol = ''mysql:'', username = '''', password = '''', hostname = '''',
                   port = None, pathname = ''/shop'', search = '''', hash = '''',
                   opaque_path = False\<rparr>
      else if s = ''mysql:''
        then Some \<lparr>protocol = ''mysql:'', username = '''', password = '''', hostname = '''',
                   port = None, pathname = '''', search = '''', hash = '''',
                   opaque_path = True\<rparr>
      else None)"

fun join :: "string \<Rightarrow> string list \<Rightarrow> string" where
  "join sep [] = []"
| "join sep [x] = x"
| "join sep (x # y # ys) = x @ sep @ join sep (y # ys)"

fun decimal :: "nat \<Rightarrow> string" where
  "decimal n =
     (if n < 10 then [''0123456789'' ! n] else decimal (n div 10) @ [''0123456789'' ! (n mod 10)])"

definition test_URL_href :: "string \<Rightarrow> url \<Rightarrow> string option" where
  "test_URL_href rel base =
     Some (protocol base @ ''//''
           @ (if username base = '''' \<and> password base = '''' then ''''
              else username base @ (if password base = '''' then '''' else '':'' @ password base) @ ''@'')
           @ hostname base
           @ (case port base of None \<Rightarrow> '''' | Some p \<Rightarrow> '':'' @ decimal p)
           @ join ''/'' (butlast (str_split CHR ''/'' (pathname base))) @ ''/'' @ rel)"

definition show_int :: "int \<Rightarrow> string" where
  "show_int i = (if i < 0 then CHR ''-'' # decimal (nat (- i)) else decimal (nat i))"

definition escape_char :: "char \<Rightarrow> string" where
  "escape_char c =
     (if c = CHR 0x22 then [CHR 0x5C, CHR 0x22]
      else if c = CHR 0x5C then [CHR 0x5C, CHR 0x5C]
      else if c = CHR 0x08 then [CHR 0x5C, CHR ''b'']
      else if c = CHR 0x0C then [CHR 0x5C, CHR ''f'']
      else if c = CHR 0x0A then [CHR 0x5C, CHR ''n'']
      else if c = CHR 0x0D then [CHR 0x5C, CHR ''r'']
      else if c = CHR 0x09 then [CHR 0x5C, CHR ''t'']
      else if (of_char c :: nat) < 32
        then [CHR 0x5C, CHR ''u'', CHR ''0'', CHR ''0'',
              ''0123456789abcdef'' ! (of_char c div 16), ''0123456789abcdef'' ! (of_char c mod 16)]
      else [c])"

definition quote :: "string \<Rightarrow> string" where
  "quote s = CHR 0x22 # concat (map escape_char s) @ [CHR 0x22]"

definition newline :: "nat \<Rightarrow> string" where
  "newline d = CHR 0x0A # replicate (2 * d) CHR '' ''"

fun stringify :: "nat \<Rightarrow> json \<Rightarrow> string"
  and stringify_items :: "nat \<Rightarrow> json list \<Rightarrow> string list"
  and stringify_members :: "nat \<Rightarrow> (string \<times> json) list \<Rightarrow> string list" where
  "stringify d JNull = ''null''"
| "stringify d (JBool b) = (if b then ''true'' else ''false'')"
| "stringify d (JNum i) = show_int i"
| "stringify d (JStr s) = quote s"
| "stringify d (JArr xs) =
     (if xs = [] then ''[]''
      else ''['' @ newline (Suc d) @ join ('','' @ newline (Suc d)) (stringify_items (Suc d) xs)
           @ newline d @ '']'')"
| "stringify d (JObj kvs) =
     (if kvs = [] then ''{}''
      else ''{'' @ newline (Suc d) @ join ('','' @ newline (Suc d)) (stringify_members (Suc d) kvs)
           @ newline d @ ''}'')"
| "stringify_items d [] = []"
| "stringify_items d (x # xs) = stringify d x # stringify_items d xs"
| "stringify_members d [] = []"
| "stringify_members d ((k, v) # kvs) = (quote k @ '': '' @ stringify d v) # stringify_members d kvs"

fun ToString :: "json \<Rightarrow> string"
  and ToString_items :: "json list \<Rightarrow> string list" where
  "ToString JNull = ''null''"
| "ToString (JBool b) = (if b then ''true'' else ''false'')"
| "ToString (JNum i) = show_int i"
| "ToString (JStr s) = s"
| "ToString (JArr xs) = join '','' (ToString_items xs)"
| "ToString (JObj kvs) = ''[object Object]''"
| "ToString_items [] = []"
| "ToString_items (x # xs) = (if x = JNull then '''' else ToString x) # ToString_items xs"

definition test_template :: "json option \<Rightarrow> string" where
  "test_template v = (case v of None \<Rightarrow> ''undefined'' | Some j \<Rightarrow> ToString j)"

definition test_runtime :: runtime where
  "test_runtime =
     \<lparr>URL_new = test_URL_new, URL_href = test_URL_href,
      JSON_stringify = stringify 0, template = test_template\<rparr>"

section \<open>Auxiliary facts: the handlers in terms of the driver's answers\<close>

lemma connection_call_sel:
  "fst (connection_call drv c w) = fst (drv c (server w))"
  "server (snd (connection_call drv c w)) = snd (drv c (server w))"
  "calls (snd (connection_call drv c w)) = calls w @ [c]"
  "acquired (snd (connection_call drv c w)) = acquired w"
  "released (snd (connection_call drv c w)) = released w"
  "warnings (snd (connection_call drv c w)) = warnings w"
  by (simp_all add: connection_call_def case_prod_beta)

lemma connection_release_sel:
  "server (connection_release drv w) = snd (drv Release (server w))"
  "calls (connection_release drv w) = calls w @ [Release]"
  "acquired (connection_release drv w) = acquired w"
  "released (connection_release drv w) = released w + 1"
  "warnings (connection_release drv w) = warnings w"
  by (simp_all add: connection_release_def case_prod_beta)

lemma console_warn_sel:
  "server (console_warn e w) = server w"
  "calls (console_warn e w) = calls w"
  "acquired (console_warn e w) = acquired w"
  "released (console_warn e w) = released w"
  "warnings (console_warn e w) = warnings w @ [e]"
  by (simp_all add: console_warn_def)

lemma pool_getConnection_sel:
  "isl (fst (pool_getConnection drv w)) = isl (fst (drv GetConnection (server w)))"
  "server (snd (pool_getConnection drv w)) = snd (drv GetConnection (server w))"
  "calls (snd (pool_getConnection drv w)) = calls w @ [GetConnection]"
  "acquired (snd (pool_getConnection drv w)) =
     (if isl (fst (drv GetConnection (server w))) then acquired w else acquired w + 1)"
  "released (snd (pool_getConnection drv w)) = released w"
  "warnings (snd (pool_getConnection drv w)) = warnings w"
  by (simp_all add: pool_getConnection_def case_prod_beta split: sum.splits)

lemma CallTool_finally_sel:
  "server (CallTool_finally drv w) = snd (drv Release (snd (drv Rollback (server w))))"
  "calls (CallTool_finally drv w) = calls w @ [Rollback, Release]"
  "acquired (CallTool_finally drv w) = acquired w"
  "released (CallTool_finally drv w) = released w + 1"
  "warnings (CallTool_finally drv w) =
     warnings w @ (case fst (drv Rollback (server w)) of Inl e \<Rightarrow> [e] | Inr _ \<Rightarrow> [])"
  by (simp_all add: CallTool_finally_def case_prod_beta connection_call_sel
      connection_release_sel console_warn_sel split: sum.splits)

text \<open>The query tool, unfolded into the driver's answers.\<close>

lemma CallTool_try_fst:
  "fst (CallTool_try rt drv sql w) =
     (case fst (drv SET_READ_ONLY (server w)) of
        Inl e \<Rightarrow> Inl e
      | Inr _ \<Rightarrow>
          (case fst (drv BeginTransaction (snd (drv SET_READ_ONLY (server w)))) of
             Inl e \<Rightarrow> Inl e
           | Inr _ \<Rightarrow>
               (case fst (drv (Query sql)
                           (snd (drv BeginTransaction (snd (drv SET_READ_ONLY (server w)))))) of
                  Inl e \<Rightarrow> Inl e
                | Inr rows \<Rightarrow>
                    Inr (JObj [(''content'',
                            JArr [JObj [(''type'', JStr ''text''),
                                        (''text'', JStr (JSON_stringify rt rows))]]),
                          (''isError'', JBool False)]))))"
  by (simp add: CallTool_try_def case_prod_beta connection_call_sel split: sum.splits)

lemma CallTool_try_calls:
  "calls (snd (CallTool_try rt drv sql w)) =
     calls w @ SET_READ_ONLY #
       (if isl (fst (drv SET_READ_ONLY (server w))) then []
        else BeginTransaction #
          (if isl (fst (drv BeginTransaction (snd (drv SET_READ_ONLY (server w))))) then []
           else [Query sql]))"
  by (simp add: CallTool_try_def case_prod_beta connection_call_sel split: sum.splits)

lemma CallTool_try_server:
  "server (snd (CallTool_try rt drv sql w)) =
     (let s1 = snd (drv SET_READ_ONLY (server w)) in
      if isl (fst (drv SET_READ_ONLY (server w))) then s1
      else let s2 = snd (drv BeginTransaction s1) in
        if isl (fst (drv BeginTransaction s1)) then s2
        else snd (drv (Query sql) s2))"
  by (simp add: CallTool_try_def case_prod_beta connection_call_sel Let_def split: sum.splits)

lemma CallTool_try_counters:
  "acquired (snd (CallTool_try rt drv sql w)) = acquired w"
  "released (snd (CallTool_try rt drv sql w)) = released w"
  "warnings (snd (CallTool_try rt drv sql w)) = warnings w"
  by (simp_all add: CallTool_try_def case_prod_beta connection_call_sel split: sum.splits)

lemma CallTool_query_rejected:
  "fst (drv GetConnection (server w)) = Inl e \<Longrightarrow>
   CallTool rt drv ''query'' sql w = (Inl e, snd (pool_getConnection drv w))"
  by (simp add: CallTool_def pool_getConnection_def case_prod_beta split: sum.splits)

lemma CallTool_query_acquired:
  "\<not> isl (fst (drv GetConnection (server w))) \<Longrightarrow>
   CallTool rt drv ''query'' sql w =
     (fst (CallTool_try rt drv sql (snd (pool_getConnection drv w))),
      CallTool_finally drv (snd (CallTool_try rt drv sql (snd (pool_getConnection drv w)))))"
  by (cases "fst (drv GetConnection (server w))")
     (simp_all add: CallTool_def pool_getConnection_def case_prod_beta)

lemma CallTool_calls_among:
  "set (calls (snd (CallTool rt drv ''query'' sql w))) \<subseteq>
     set (calls w) \<union>
     {GetConnection, SET_READ_ONLY, BeginTransaction, Query sql, Rollback, Release}"
proof (cases "fst (drv GetConnection (server w))")
  case (Inl e)
  then show ?thesis
    by (auto simp add: CallTool_query_rejected pool_getConnection_sel)
next
  case (Inr c)
  then have "\<not> isl (fst (drv GetConnection (server w)))" by simp
  then show ?thesis
    by (auto simp add: CallTool_query_acquired CallTool_finally_sel CallTool_try_calls
        pool_getConnection_sel)
qed

lemma CallTool_server:
  "server (snd (CallTool rt drv name sql w)) =
     (if name \<noteq> ''query'' then server w
      else let s0 = snd (drv GetConnection (server w)) in
        if isl (fst (drv GetConnection (server w))) then s0
        else snd (drv Release (snd (drv Rollback
               (let s1 = snd (drv SET_READ_ONLY s0) in
                if isl (fst (drv SET_READ_ONLY s0)) then s1
                else let s2 = snd (drv BeginTransaction s1) in
                  if isl (fst (drv BeginTransaction s1)) then s2
                  else snd (drv (Query sql) s2))))))"
proof (cases "name = ''query''")
  case False
  then show ?thesis by (simp add: CallTool_def)
next
  case True
  show ?thesis
  proof (cases "fst (drv GetConnection (server w))")
    case (Inl e)
    with True show ?thesis
      by (simp add: CallTool_query_rejected pool_getConnection_sel)
  next
    case (Inr c)
    then have "\<not> isl (fst (drv GetConnection (server w)))" by simp
    with True show ?thesis
      by (simp add: CallTool_query_acquired CallTool_finally_sel CallTool_try_server
          pool_getConnection_sel Let_def)
  qed
qed

text \<open>The test server, call by call.\<close>

lemma test_server_simps:
  "test_server GetConnection s = (Inr JNull, s)"
  "test_server SET_READ_ONLY s = (Inr JNull, s\<lparr>read_only := True\<rparr>)"
  "test_server BeginTransaction s = (Inr JNull, s)"
  "test_server Rollback s =
     (if rollback_fails s then (Inl (DriverError ''Connection lost''), s) else (Inr JNull, s))"
  "test_server Release s = (Inr JNull, s)"
  "test_server (Query ''DROP'') s = (Inl (DriverError ''You have an error in your SQL syntax''), s)"
  "test_server (Query ''SELECT 1 AS a, 2 AS b'') s =
     (Inr (JArr [JObj [(''a'', JNum 1), (''b'', JNum 2)]]), s)"
  "test_server (Query ''INSERT INTO t VALUES (1)'') s =
     (if read_only s
      then (Inl (DriverError ''Cannot execute statement in a READ ONLY transaction.''), s)
      else (Inr JNull, s\<lparr>table_t := table_t s @ [1]\<rparr>))"
  "test_server (Query ''SET SESSION TRANSACTION READ WRITE'') s =
     (Inr JNull, s\<lparr>read_only := False\<rparr>)"
  "test_server (QueryValues q vs) s = (Inr (JArr [JObj [(''table_name'', JStr ''orders'')]]), s)"
  by (simp_all add: test_server_def)

lemma test_server_contract: "read_only_contract test_server read_only table_t"
  unfolding read_only_contract_def
  by (auto simp add: test_server_def split: call.splits)

text \<open>Listing and reading resources.\<close>

lemma ListResources_try_sel:
  "acquired (snd (ListResources_try rt drv cfg base w)) = acquired w"
  "released (snd (ListResources_try rt drv cfg base w)) = released w"
  "calls (snd (ListResources_try rt drv cfg base w)) =
     calls w @ [QueryValues ''SELECT TABLE_NAME as table_name FROM information_schema.tables WHERE table_schema = ?''
                  [Some (database cfg)]]"
  by (simp_all add: ListResources_try_def case_prod_beta connection_call_sel
      split: sum.splits json.splits)

lemma ListResources_rejected:
  "fst (drv GetConnection (server w)) = Inl e \<Longrightarrow>
   ListResources rt drv cfg base w = (Inl e, snd (pool_getConnection drv w))"
  by (simp add: ListResources_def pool_getConnection_def case_prod_beta)

lemma ListResources_acquired:
  "\<not> isl (fst (drv GetConnection (server w))) \<Longrightarrow>
   ListResources rt drv cfg base w =
     (fst (ListResources_try rt drv cfg base (snd (pool_getConnection drv w))),
      connection_release drv (snd (ListResources_try rt drv cfg base (snd (pool_getConnection drv w)))))"
  by (cases "fst (drv GetConnection (server w))")
     (simp_all add: ListResources_def pool_getConnection_def case_prod_beta)

lemma ListResources_counters:
  "acquired (snd (ListResources rt drv cfg base w)) =
     acquired w + (if isl (fst (drv GetConnection (server w))) then 0 else 1)"
  "released (snd (ListResources rt drv cfg base w)) =
     released w + (if isl (fst (drv GetConnection (server w))) then 0 else 1)"
  by (cases "fst (drv GetConnection (server w))";
      simp add: ListResources_rejected ListResources_acquired ListResources_try_sel
        connection_release_sel pool_getConnection_sel)+

lemma ReadResource_try_sel:
  "acquired (snd (ReadResource_try rt drv cfg uri t w)) = acquired w"
  "released (snd (ReadResource_try rt drv cfg uri t w)) = released w"
  "calls (snd (ReadResource_try rt drv cfg uri t w)) =
     calls w @ [QueryValues ''SELECT COLUMN_NAME as column_name, DATA_TYPE as data_type FROM information_schema.columns WHERE table_name = ? AND table_schema = ?''
                  [t, Some (database cfg)]]"
  by (simp_all add: ReadResource_try_def case_prod_beta connection_call_sel split: sum.splits)

lemma ReadResource_invalid:
  "URL_new rt uri = Some u \<Longrightarrow> fst (pop (str_split CHR ''/'' (pathname u))) \<noteq> Some SCHEMA_PATH \<Longrightarrow>
   ReadResource rt drv cfg uri w = (Inl (Error ''Invalid resource URI''), w)"
  by (simp add: ReadResource_def case_prod_beta)

lemma ReadResource_no_URL:
  "URL_new rt uri = None \<Longrightarrow> ReadResource rt drv cfg uri w = (Inl (TypeError ''Invalid URL''), w)"
  by (simp add: ReadResource_def)

lemma ReadResource_rejected:
  "URL_new rt uri = Some u \<Longrightarrow> fst (pop (str_split CHR ''/'' (pathname u))) = Some SCHEMA_PATH \<Longrightarrow>
   fst (drv GetConnection (server w)) = Inl e \<Longrightarrow>
   ReadResource rt drv cfg uri w = (Inl e, snd (pool_getConnection drv w))"
  by (simp add: ReadResource_def pool_getConnection_def case_prod_beta)

lemma ReadResource_acquired:
  "URL_new rt uri = Some u \<Longrightarrow> fst (pop (str_split CHR ''/'' (pathname u))) = Some SCHEMA_PATH \<Longrightarrow>
   \<not> isl (fst (drv GetConnection (server w))) \<Longrightarrow>
   ReadResource rt drv cfg uri w =
     (let t = fst (pop (snd (pop (str_split CHR ''/'' (pathname u)))));
          w1 = snd (pool_getConnection drv w) in
      (fst (ReadResource_try rt drv cfg uri t w1),
       connection_release drv (snd (ReadResource_try rt drv cfg uri t w1))))"
  by (cases "fst (drv GetConnection (server w))")
     (simp_all add: ReadResource_def pool_getConnection_def case_prod_beta Let_def)

lemma ReadResource_counters:
  "\<exists>n\<le>1. acquired (snd (ReadResource rt drv cfg uri w)) = acquired w + n \<and>
          released (snd (ReadResource rt drv cfg uri w)) = released w + n"
proof (cases "URL_new rt uri")
  case None
  then show ?thesis by (simp add: ReadResource_no_URL)
next
  case (Some u)
  show ?thesis
  proof (cases "fst (pop (str_split CHR ''/'' (pathname u))) = Some SCHEMA_PATH")
    case False
    with Some show ?thesis by (simp add: ReadResource_invalid)
  next
    case True
    show ?thesis
    proof (cases "fst (drv GetConnection (server w))")
      case (Inl e)
      with Some True show ?thesis
        by (simp add: ReadResource_rejected pool_getConnection_sel)
    next
      case (Inr c)
      then have "\<not> isl (fst (drv GetConnection (server w)))" by simp
      with Some True show ?thesis
        by (simp add: ReadResource_acquired Let_def ReadResource_try_sel connection_release_sel
            pool_getConnection_sel)
    qed
  qed
qed

lemma CallTool_counters:
  "\<exists>n\<le>1. acquired (snd (CallTool rt drv name sql w)) = acquired w + n \<and>
          released (snd (CallTool rt drv name sql w)) = released w + n"
proof (cases "name = ''query''")
  case False
  then show ?thesis by (simp add: CallTool_def)
next
  case True
  show ?thesis
  proof (cases "fst (drv GetConnection (server w))")
    case (Inl e)
    with True show ?thesis
      by (simp add: CallTool_query_rejected pool_getConnection_sel)
  next
    case (Inr c)
    then have "\<not> isl (fst (drv GetConnection (server w)))" by simp
    with True show ?thesis
      by (simp add: CallTool_query_acquired CallTool_finally_sel CallTool_try_counters
          pool_getConnection_sel)
  qed
qed

lemma leased_same:
  "acquired w' = acquired w + n \<Longrightarrow> released w' = released w + n \<Longrightarrow> leased w' = leased w"
  by (simp add: leased_def)

lemma str_split_not_Nil: "str_split c s \<noteq> []"
  by (induction s) (auto split: list.splits)

lemma pop_snoc: "pop (xs @ [x]) = (Some x, xs)"
  by (simp add: pop_def)

lemma pop_last: "xs \<noteq> [] \<Longrightarrow> fst (pop xs) = Some (last xs)"
  by (simp add: pop_def)

lemma ReadResource_calls:
  "URL_new rt uri = Some u \<Longrightarrow> fst (pop (str_split CHR ''/'' (pathname u))) = Some SCHEMA_PATH \<Longrightarrow>
   calls (snd (ReadResource rt drv cfg uri w)) =
     calls w @ GetConnection #
       (if isl (fst (drv GetConnection (server w))) then []
        else [QueryValues ''SELECT COLUMN_NAME as column_name, DATA_TYPE as data_type FROM information_schema.columns WHERE table_name = ? AND table_schema = ?''
                [fst (pop (snd (pop (str_split CHR ''/'' (pathname u))))), Some (database cfg)],
              Release])"
proof (cases "fst (drv GetConnection (server w))")
  case (Inl e)
  assume "URL_new rt uri = Some u" "fst (pop (str_split CHR ''/'' (pathname u))) = Some SCHEMA_PATH"
  with Inl show ?thesis
    by (simp add: ReadResource_rejected pool_getConnection_sel)
next
  case (Inr c)
  assume "URL_new rt uri = Some u" "fst (pop (str_split CHR ''/'' (pathname u))) = Some SCHEMA_PATH"
  moreover from Inr have "\<not> isl (fst (drv GetConnection (server w)))" by simp
  ultimately show ?thesis
    by (simp add: ReadResource_acquired Let_def ReadResource_try_sel connection_release_sel
        pool_getConnection_sel)
qed

text \<open>The connection descriptor and the base of the resource URIs.\<close>

lemma databaseUrl_defaults_unchanged:
  "pathname u \<noteq> '''' \<Longrightarrow> pathname u \<noteq> ''/'' \<Longrightarrow> username u \<noteq> '''' \<Longrightarrow>
   databaseUrl_defaults u = u"
  by (simp add: databaseUrl_defaults_def)

lemma databaseUrl_defaults_with_host:
  assumes "hostname u \<noteq> ''''" and "protocol u \<noteq> ''file:''" and "\<not> opaque_path u"
  shows "databaseUrl_defaults u =
        u\<lparr>username := (if username u = '''' then ''root'' else username u),
          pathname := (if pathname u = '''' \<or> pathname u = ''/'' then ''/mysql'' else pathname u)\<rparr>"
  using assms
  by (simp add: databaseUrl_defaults_def set_pathname_def set_username_def
      cannot_have_credentials_def Let_def)

text \<open>
  Where each default takes effect: the database name on every URL whose path is not
  opaque, the username on every URL that can have credentials.
\<close>

lemma databaseUrl_defaults_pathname:
  "pathname (databaseUrl_defaults u) =
     (if (pathname u = '''' \<or> pathname u = ''/'') \<and> \<not> opaque_path u then ''/mysql''
      else pathname u)"
  by (simp add: databaseUrl_defaults_def set_pathname_def set_username_def Let_def)

lemma databaseUrl_defaults_username:
  "username (databaseUrl_defaults u) =
     (if username u = '''' \<and> \<not> cannot_have_credentials u then ''root'' else username u)"
  by (simp add: databaseUrl_defaults_def set_pathname_def set_username_def
      cannot_have_credentials_def Let_def)

lemma special_scheme_literals:
  "special_scheme ''file:''" "\<not> special_scheme ''mysql:''"
  by (simp_all add: special_scheme_def)

lemma databaseUrl_defaults_password:
  "databaseUrl_defaults (u\<lparr>password := p\<rparr>) = (databaseUrl_defaults u)\<lparr>password := p\<rparr>"
  by (simp add: databaseUrl_defaults_def set_pathname_def set_username_def
      cannot_have_credentials_def Let_def)

lemma databaseUrl_defaults_credentials:
  "cannot_have_credentials (databaseUrl_defaults u) = cannot_have_credentials u"
  by (simp add: databaseUrl_defaults_def set_pathname_def set_username_def
      cannot_have_credentials_def Let_def)

lemma set_protocol_password:
  "set_protocol (v\<lparr>password := p\<rparr>) m = (set_protocol v m)\<lparr>password := p\<rparr>"
  by (simp add: set_protocol_def)

lemma set_protocol_mysql_credentials:
  "cannot_have_credentials (set_protocol v ''mysql:'') = cannot_have_credentials v"
proof (cases "special_scheme (protocol v)")
  case True
  then show ?thesis by (simp add: set_protocol_def special_scheme_literals)
next
  case False
  then have "protocol v \<noteq> ''file:''" using special_scheme_literals(1) by auto
  with False show ?thesis
    by (simp add: set_protocol_def special_scheme_literals cannot_have_credentials_def)
qed

lemma resourceBaseUrl_password:
  "resourceBaseUrl (v\<lparr>password := p\<rparr>) =
     (set_protocol v ''mysql:'')\<lparr>password := (if cannot_have_credentials v then p else '''')\<rparr>"
proof -
  have "cannot_have_credentials ((set_protocol v ''mysql:'')\<lparr>password := p\<rparr>) =
      cannot_have_credentials v"
    using set_protocol_mysql_credentials [of v] by (simp add: cannot_have_credentials_def)
  then show ?thesis
    by (simp add: resourceBaseUrl_def set_protocol_password set_password_def)
qed

lemma ListResources_database:
  assumes "database cfg = database cfg'"
  shows "ListResources rt drv cfg base w = ListResources rt drv cfg' base w"
proof -
  have "ListResources_try rt drv cfg base = ListResources_try rt drv cfg' base"
    by (rule ext) (simp add: ListResources_try_def assms)
  then show ?thesis
    by (simp only: ListResources_def)
qed

lemma connectionConfig_database_password:
  "database (connectionConfig (v\<lparr>password := p\<rparr>)) = database (connectionConfig v)"
  by (simp add: connectionConfig_def)

lemma test_base:
  "resourceBaseUrl (databaseUrl_defaults ((test_URL ''/shop'')\<lparr>password := p\<rparr>)) = test_URL ''/shop''"
  by (simp add: databaseUrl_defaults_password resourceBaseUrl_password
      databaseUrl_defaults_credentials)
     (simp add: test_URL_def databaseUrl_defaults_def set_protocol_def special_scheme_literals
      cannot_have_credentials_def)

lemma test_ListResources:
  "fst (ListResources test_runtime test_server cfg (test_URL ''/shop'') (test_world False)) =
     Inr (JObj [(''resources'',
            JArr [JObj [(''uri'', JStr ''mysql://root@localhost/orders/schema''),
                        (''mimeType'', JStr ''application/json''),
                        (''name'', JStr (CHR 0x22 # ''orders'' @ CHR 0x22 # '' database schema''))]])])"
proof -
  have "\<not> isl (fst (test_server GetConnection (server (test_world False))))"
    by (simp add: test_server_simps)
  then show ?thesis
    by (simp add: ListResources_acquired ListResources_try_def case_prod_beta connection_call_sel
        test_server_simps table_resource_def property_def test_runtime_def test_template_def
        test_URL_href_def test_URL_def SCHEMA_PATH_def)
qed

section \<open>The claims\<close>

text \<open>
  C1. Whatever text is submitted to the query tool, and whether the call succeeds or
  fails, the rows of every table are the same after the call as before it. The database
  server is not code of the repository, so the statement is relative to the contract the
  spec requires of it (\<open>read_only_contract\<close>): the handler runs the caller's text only in
  a session on which the read-only setting and the begin have succeeded, and the other
  calls it makes change no table.
\<close>

theorem query_tool_leaves_tables_unchanged:
  assumes "read_only_contract drv ro tables"
  shows "tables (server (snd (CallTool rt drv name sql w))) = tables (server w)"
proof -
  from assms have
    conn: "\<And>s. tables (snd (drv GetConnection s)) = tables s" and
    set_t: "\<And>s. tables (snd (drv SET_READ_ONLY s)) = tables s" and
    set_ro: "\<And>s. \<not> isl (fst (drv SET_READ_ONLY s)) \<Longrightarrow> ro (snd (drv SET_READ_ONLY s))" and
    begin_t: "\<And>s. tables (snd (drv BeginTransaction s)) = tables s" and
    begin_ro: "\<And>s. ro s \<Longrightarrow> ro (snd (drv BeginTransaction s))" and
    query_t: "\<And>s q. ro s \<Longrightarrow> tables (snd (drv (Query q) s)) = tables s" and
    rollback_t: "\<And>s. tables (snd (drv Rollback s)) = tables s" and
    release_t: "\<And>s. tables (snd (drv Release s)) = tables s"
    unfolding read_only_contract_def by blast+
  show ?thesis
    by (simp add: CallTool_server Let_def conn set_t set_ro begin_t begin_ro query_t rollback_t
        release_t)
qed

text \<open>
  On the test server an insertion submitted to the tool leaves the table as it was, while
  the same statement sent to the server outside the tool adds a row.
\<close>

theorem query_tool_leaves_tables_unchanged_witness:
  "read_only_contract test_server read_only table_t \<and>
   table_t (server (snd (CallTool test_runtime test_server ''query'' ''INSERT INTO t VALUES (1)''
                           (test_world False)))) = [7] \<and>
   table_t (snd (test_server (Query ''INSERT INTO t VALUES (1)'') (server (test_world False)))) =
     [7, 1]"
  using query_tool_leaves_tables_unchanged [OF test_server_contract, of test_runtime "''query''"
      "''INSERT INTO t VALUES (1)''" "test_world False"]
  by (simp add: test_server_contract test_server_simps test_world_def)

text \<open>
  C2. A call of the query tool first asks the pool for a connection. On the connection it
  issues \<^verbatim>\<open>SET SESSION TRANSACTION READ ONLY\<close>, then begins a transaction, then runs
  the caller's text, unchanged and as one statement, each only if the one before it
  succeeded; whatever happened, it then attempts a rollback and releases the connection.
  So the caller's text is never run before the read-only setting and the begin have both
  succeeded.
\<close>

theorem CallTool_statement_order:
  "calls (snd (CallTool rt drv ''query'' sql w)) =
     calls w @ GetConnection #
       (let s0 = snd (drv GetConnection (server w)); s1 = snd (drv SET_READ_ONLY s0) in
        if isl (fst (drv GetConnection (server w))) then []
        else SET_READ_ONLY #
          (if isl (fst (drv SET_READ_ONLY s0)) then []
           else BeginTransaction #
             (if isl (fst (drv BeginTransaction s1)) then [] else [Query sql]))
          @ [Rollback, Release])"
proof (cases "fst (drv GetConnection (server w))")
  case (Inl e)
  then show ?thesis
    by (simp add: CallTool_query_rejected pool_getConnection_sel)
next
  case (Inr c)
  then have "\<not> isl (fst (drv GetConnection (server w)))" by simp
  then show ?thesis
    by (simp add: CallTool_query_acquired CallTool_finally_sel CallTool_try_calls
        pool_getConnection_sel Let_def)
qed

theorem CallTool_statement_order_witness:
  "calls (snd (CallTool test_runtime test_server ''query'' ''INSERT INTO t VALUES (1)''
                 (test_world False))) =
     [GetConnection, SET_READ_ONLY, BeginTransaction, Query ''INSERT INTO t VALUES (1)'',
      Rollback, Release]"
  using CallTool_statement_order [of test_runtime test_server "''INSERT INTO t VALUES (1)''"
      "test_world False"]
  by (simp add: test_server_simps test_world_def)

text \<open>
  C3. When the rollback fails, the caller still gets the outcome of the query: the
  query's own error if the query failed, the rows if it succeeded. The rollback's error
  goes to \<^verbatim>\<open>console.warn\<close> and nowhere else.
\<close>

theorem rollback_failure_does_not_mask:
  assumes "drv GetConnection (server w) = (Inr c, s0)"
    and "drv SET_READ_ONLY s0 = (Inr r1, s1)"
    and "drv BeginTransaction s1 = (Inr r2, s2)"
    and "drv (Query sql) s2 = (q, s3)"
    and "drv Rollback s3 = (Inl e', s4)"
  shows "fst (CallTool rt drv ''query'' sql w) =
           (case q of
              Inl e \<Rightarrow> Inl e
            | Inr rows \<Rightarrow>
                Inr (JObj [(''content'',
                        JArr [JObj [(''type'', JStr ''text''),
                                    (''text'', JStr (JSON_stringify rt rows))]]),
                      (''isError'', JBool False)])) \<and>
         warnings (snd (CallTool rt drv ''query'' sql w)) = warnings w @ [e']"
proof -
  from assms(1) have acq: "\<not> isl (fst (drv GetConnection (server w)))" by simp
  show ?thesis
    using assms acq
    by (simp add: CallTool_query_acquired CallTool_finally_sel CallTool_try_fst
        CallTool_try_server CallTool_try_counters pool_getConnection_sel Let_def)
qed

text \<open>
  On a test server whose rollbacks fail: a rejected statement is reported with its own
  error, a selection with its rows, and both times the rollback's error is the warning.
\<close>

theorem rollback_failure_does_not_mask_witness:
  "fst (CallTool test_runtime test_server ''query'' ''DROP'' (test_world True)) =
     Inl (DriverError ''You have an error in your SQL syntax'') \<and>
   warnings (snd (CallTool test_runtime test_server ''query'' ''DROP'' (test_world True))) =
     [DriverError ''Connection lost''] \<and>
   fst (CallTool test_runtime test_server ''query'' ''SELECT 1 AS a, 2 AS b'' (test_world True)) =
     Inr (JObj [(''content'',
             JArr [JObj [(''type'', JStr ''text''),
                         (''text'', JStr (JSON_stringify test_runtime
                            (JArr [JObj [(''a'', JNum 1), (''b'', JNum 2)]])))]]),
           (''isError'', JBool False)]) \<and>
   warnings (snd (CallTool test_runtime test_server ''query'' ''SELECT 1 AS a, 2 AS b''
                    (test_world True))) =
     [DriverError ''Connection lost'']"
  using rollback_failure_does_not_mask [where drv = test_server and w = "test_world True"
      and c = JNull and ?s0.0 = "server (test_world True)" and ?r1.0 = JNull
      and ?s1.0 = "(server (test_world True))\<lparr>read_only := True\<rparr>" and ?r2.0 = JNull
      and ?s2.0 = "(server (test_world True))\<lparr>read_only := True\<rparr>"
      and sql = "''DROP''"
      and q = "Inl (DriverError ''You have an error in your SQL syntax'')"
      and ?s3.0 = "(server (test_world True))\<lparr>read_only := True\<rparr>"
      and e' = "DriverError ''Connection lost''"
      and ?s4.0 = "(server (test_world True))\<lparr>read_only := True\<rparr>" and rt = test_runtime]
    rollback_failure_does_not_mask [where drv = test_server and w = "test_world True"
      and c = JNull and ?s0.0 = "server (test_world True)" and ?r1.0 = JNull
      and ?s1.0 = "(server (test_world True))\<lparr>read_only := True\<rparr>" and ?r2.0 = JNull
      and ?s2.0 = "(server (test_world True))\<lparr>read_only := True\<rparr>"
      and sql = "''SELECT 1 AS a, 2 AS b''"
      and q = "Inr (JArr [JObj [(''a'', JNum 1), (''b'', JNum 2)]])"
      and ?s3.0 = "(server (test_world True))\<lparr>read_only := True\<rparr>"
      and e' = "DriverError ''Connection lost''"
      and ?s4.0 = "(server (test_world True))\<lparr>read_only := True\<rparr>" and rt = test_runtime]
  by (simp add: test_server_simps test_world_def)

text \<open>
  C4. Each of the three handlers that lease a connection (listing the resources, reading
  a resource, the query tool) returns as many leases as it takes, at most one: on every
  path out of the handler, also when the driver or the runtime raises an error, the
  number of connections leased from the pool is what it was before the call.
\<close>

theorem connection_released_exactly_once:
  "(\<exists>n\<le>1. acquired (snd (ListResources rt drv cfg base w)) = acquired w + n \<and>
           released (snd (ListResources rt drv cfg base w)) = released w + n) \<and>
   (\<exists>n\<le>1. acquired (snd (ReadResource rt drv cfg uri w)) = acquired w + n \<and>
           released (snd (ReadResource rt drv cfg uri w)) = released w + n) \<and>
   (\<exists>n\<le>1. acquired (snd (CallTool rt drv name sql w)) = acquired w + n \<and>
           released (snd (CallTool rt drv name sql w)) = released w + n) \<and>
   leased (snd (ListResources rt drv cfg base w)) = leased w \<and>
   leased (snd (ReadResource rt drv cfg uri w)) = leased w \<and>
   leased (snd (CallTool rt drv name sql w)) = leased w"
proof -
  have l: "\<exists>n\<le>1. acquired (snd (ListResources rt drv cfg base w)) = acquired w + n \<and>
           released (snd (ListResources rt drv cfg base w)) = released w + n"
    by (simp add: ListResources_counters)
  note r = ReadResource_counters [of rt drv cfg uri w]
  note c = CallTool_counters [of rt drv name sql w]
  from l r c show ?thesis
    by (metis leased_same)
qed

theorem connection_released_exactly_once_witness:
  "leased (snd (ListResources test_runtime test_server (connectionConfig (test_URL ''/shop''))
                  (test_URL ''/shop'') (test_world False))) = 0 \<and>
   leased (snd (ReadResource test_runtime test_server (connectionConfig (test_URL ''/shop''))
                  ''mysql://root@localhost/orders/schema'' (test_world False))) = 0 \<and>
   leased (snd (CallTool test_runtime test_server ''query'' ''DROP'' (test_world True))) = 0 \<and>
   acquired (snd (CallTool test_runtime test_server ''query'' ''DROP'' (test_world True))) = 1 \<and>
   released (snd (CallTool test_runtime test_server ''query'' ''DROP'' (test_world True))) = 1"
proof -
  have acq: "\<not> isl (fst (test_server GetConnection (server (test_world True))))"
    by (simp add: test_server_simps)
  have "acquired (snd (CallTool test_runtime test_server ''query'' ''DROP'' (test_world True))) = 1 \<and>
   released (snd (CallTool test_runtime test_server ''query'' ''DROP'' (test_world True))) = 1"
    using acq
    by (simp add: CallTool_query_acquired CallTool_finally_sel CallTool_try_counters
        pool_getConnection_sel test_world_def)
  moreover have "leased (test_world False) = 0" "leased (test_world True) = 0"
    by (simp_all add: leased_def test_world_def)
  ultimately show ?thesis
    using connection_released_exactly_once [of test_runtime test_server
        "connectionConfig (test_URL ''/shop'')" "test_URL ''/shop''" "test_world False"
        "''mysql://root@localhost/orders/schema''"]
      connection_released_exactly_once [of test_runtime test_server
        "connectionConfig (test_URL ''/shop'')" "test_URL ''/shop''" "test_world True"
        "''mysql://root@localhost/orders/schema''" "''query''" "''DROP''"]
    by simp
qed

text \<open>
  C5. An error the driver raises while the tool runs its three statements is the result of
  the call, the very value the driver raised. The failed statement is not issued again:
  after it come only the rollback and the release.
\<close>

theorem query_error_propagates_unmodified:
  "(drv GetConnection (server w) = (Inr c, s0) \<and> drv SET_READ_ONLY s0 = (Inl e, s1) \<longrightarrow>
      fst (CallTool rt drv ''query'' sql w) = Inl e \<and>
      calls (snd (CallTool rt drv ''query'' sql w)) =
        calls w @ [GetConnection, SET_READ_ONLY, Rollback, Release]) \<and>
   (drv GetConnection (server w) = (Inr c, s0) \<and> drv SET_READ_ONLY s0 = (Inr r1, s1) \<and>
    drv BeginTransaction s1 = (Inl e, s2) \<longrightarrow>
      fst (CallTool rt drv ''query'' sql w) = Inl e \<and>
      calls (snd (CallTool rt drv ''query'' sql w)) =
        calls w @ [GetConnection, SET_READ_ONLY, BeginTransaction, Rollback, Release]) \<and>
   (drv GetConnection (server w) = (Inr c, s0) \<and> drv SET_READ_ONLY s0 = (Inr r1, s1) \<and>
    drv BeginTransaction s1 = (Inr r2, s2) \<and> drv (Query sql) s2 = (Inl e, s3) \<longrightarrow>
      fst (CallTool rt drv ''query'' sql w) = Inl e \<and>
      calls (snd (CallTool rt drv ''query'' sql w)) =
        calls w @ [GetConnection, SET_READ_ONLY, BeginTransaction, Query sql, Rollback, Release])"
proof -
  have run: "\<not> isl (fst (drv GetConnection (server w))) \<Longrightarrow>
      fst (CallTool rt drv ''query'' sql w) =
        fst (CallTool_try rt drv sql (snd (pool_getConnection drv w))) \<and>
      calls (snd (CallTool rt drv ''query'' sql w)) =
        calls (snd (CallTool_try rt drv sql (snd (pool_getConnection drv w)))) @ [Rollback, Release]"
    by (simp add: CallTool_query_acquired CallTool_finally_sel)
  show ?thesis
    by (auto simp add: run CallTool_try_fst CallTool_try_calls pool_getConnection_sel)
qed

theorem query_error_propagates_unmodified_witness:
  "fst (CallTool test_runtime test_server ''query'' ''INSERT INTO t VALUES (1)'' (test_world False)) =
     Inl (DriverError ''Cannot execute statement in a READ ONLY transaction.'') \<and>
   calls (snd (CallTool test_runtime test_server ''query'' ''INSERT INTO t VALUES (1)''
                 (test_world False))) =
     [GetConnection, SET_READ_ONLY, BeginTransaction, Query ''INSERT INTO t VALUES (1)'',
      Rollback, Release]"
  using query_error_propagates_unmodified [where drv = test_server and w = "test_world False"
      and c = JNull and ?s0.0 = "server (test_world False)" and ?r1.0 = JNull
      and ?s1.0 = "(server (test_world False))\<lparr>read_only := True\<rparr>" and ?r2.0 = JNull
      and ?s2.0 = "(server (test_world False))\<lparr>read_only := True\<rparr>"
      and sql = "''INSERT INTO t VALUES (1)''"
      and e = "DriverError ''Cannot execute statement in a READ ONLY transaction.''"
      and ?s3.0 = "(server (test_world False))\<lparr>read_only := True\<rparr>" and rt = test_runtime]
  by (simp add: test_server_simps test_world_def)

text \<open>
  C6. When the connection is obtained, the setting and the begin succeed and the server
  answers \<^verbatim>\<open>SELECT 1 AS a, 2 AS b\<close> with the one row that maps \<open>a\<close> to 1 and \<open>b\<close> to 2,
  the call succeeds and its content is the one text item holding the JSON serialisation of
  that row list, with \<^verbatim>\<open>isError\<close> false, whatever the rollback does.
\<close>

theorem select_row_result:
  assumes "drv GetConnection (server w) = (Inr c, s0)"
    and "drv SET_READ_ONLY s0 = (Inr r1, s1)"
    and "drv BeginTransaction s1 = (Inr r2, s2)"
    and "drv (Query ''SELECT 1 AS a, 2 AS b'') s2 =
           (Inr (JArr [JObj [(''a'', JNum 1), (''b'', JNum 2)]]), s3)"
  shows "fst (CallTool rt drv ''query'' ''SELECT 1 AS a, 2 AS b'' w) =
           Inr (JObj [(''content'',
                   JArr [JObj [(''type'', JStr ''text''),
                               (''text'', JStr (JSON_stringify rt
                                  (JArr [JObj [(''a'', JNum 1), (''b'', JNum 2)]])))]]),
                 (''isError'', JBool False)])"
proof -
  from assms(1) have "\<not> isl (fst (drv GetConnection (server w)))" by simp
  with assms show ?thesis
    by (simp add: CallTool_query_acquired CallTool_try_fst pool_getConnection_sel)
qed

text \<open>With the test runtime the text is the six lines \<^verbatim>\<open>JSON.stringify\<close> prints.\<close>

theorem select_row_result_witness:
  "fst (CallTool test_runtime test_server ''query'' ''SELECT 1 AS a, 2 AS b'' (test_world False)) =
     Inr (JObj [(''content'',
             JArr [JObj [(''type'', JStr ''text''),
                         (''text'', JStr (CHR ''['' # CHR 0x0A # ''  {'' @ CHR 0x0A # ''    ''
                            @ CHR 0x22 # ''a'' @ CHR 0x22 # '': 1,'' @ CHR 0x0A # ''    ''
                            @ CHR 0x22 # ''b'' @ CHR 0x22 # '': 2'' @ CHR 0x0A # ''  }''
                            @ CHR 0x0A # '']''))]]),
           (''isError'', JBool False)])"
  using select_row_result [where drv = test_server and w = "test_world False" and c = JNull
      and ?s0.0 = "server (test_world False)" and ?r1.0 = JNull
      and ?s1.0 = "(server (test_world False))\<lparr>read_only := True\<rparr>" and ?r2.0 = JNull
      and ?s2.0 = "(server (test_world False))\<lparr>read_only := True\<rparr>"
      and ?s3.0 = "(server (test_world False))\<lparr>read_only := True\<rparr>" and rt = test_runtime]
  by (simp add: test_server_simps test_world_def test_runtime_def show_int_def quote_def
      escape_char_def newline_def eval_nat_numeral)

text \<open>
  C7. The startup code means to give a connection URL without a database name the
  database \<^verbatim>\<open>mysql\<close> and one without a username the account \<^verbatim>\<open>root\<close>: it logs
  that it does so and assigns \<^verbatim>\<open>url.pathname\<close> and \<^verbatim>\<open>tempUrl.username\<close>. On two
  arguments that \<^verbatim>\<open>new URL\<close> accepts, so that the process does not exit, the
  assignment has no effect: started with \<^verbatim>\<open>mysql:///shop\<close> (no username, an empty
  host) the connection is configured with the empty user, not \<^verbatim>\<open>root\<close>, and started
  with \<^verbatim>\<open>mysql:\<close> (no path) with the empty database, not \<^verbatim>\<open>mysql\<close>.
\<close>

theorem databaseUrl_defaults_missed:
  "map_sum id connectionConfig (resolve_databaseUrl test_runtime [''mysql:///shop'']) =
     Inr \<lparr>host = '''', port' = 3306, user = '''', password' = '''', database = ''shop''\<rparr> \<and>
   map_sum id connectionConfig (resolve_databaseUrl test_runtime [''mysql:'']) =
     Inr \<lparr>host = '''', port' = 3306, user = '''', password' = '''', database = ''''\<rparr>"
  by (simp add: resolve_databaseUrl_def test_runtime_def test_URL_new_def databaseUrl_defaults_def
      set_pathname_def set_username_def cannot_have_credentials_def connectionConfig_def
      strip_slash_def)

text \<open>
  C8. The base of every resource URI is the connection URL with its password set to the
  empty string, so two connection URLs that differ only in the password give the same
  base and, on the same answers of the server, the same list of resources. The hypothesis
  is what \<^verbatim>\<open>new URL\<close> guarantees of the URLs it returns: one without a host, or with
  the scheme \<^verbatim>\<open>file\<close>, carries no password.
\<close>

theorem resources_independent_of_password:
  assumes "cannot_have_credentials u \<longrightarrow> p = '''' \<and> q = ''''"
  shows "password (resourceBaseUrl (databaseUrl_defaults (u\<lparr>password := p\<rparr>))) = '''' \<and>
         resourceBaseUrl (databaseUrl_defaults (u\<lparr>password := p\<rparr>)) =
           resourceBaseUrl (databaseUrl_defaults (u\<lparr>password := q\<rparr>)) \<and>
         ListResources rt drv (connectionConfig (databaseUrl_defaults (u\<lparr>password := p\<rparr>)))
             (resourceBaseUrl (databaseUrl_defaults (u\<lparr>password := p\<rparr>))) w =
           ListResources rt drv (connectionConfig (databaseUrl_defaults (u\<lparr>password := q\<rparr>)))
             (resourceBaseUrl (databaseUrl_defaults (u\<lparr>password := q\<rparr>))) w"
proof -
  have base: "resourceBaseUrl (databaseUrl_defaults (u\<lparr>password := r\<rparr>)) =
      (set_protocol (databaseUrl_defaults u) ''mysql:'')\<lparr>password := ''''\<rparr>"
    if "cannot_have_credentials u \<longrightarrow> r = ''''" for r
    using that
    by (simp add: databaseUrl_defaults_password resourceBaseUrl_password
        databaseUrl_defaults_credentials)
  from assms have p: "cannot_have_credentials u \<longrightarrow> p = ''''"
    and q: "cannot_have_credentials u \<longrightarrow> q = ''''" by simp_all
  have db: "database (connectionConfig (databaseUrl_defaults (u\<lparr>password := p\<rparr>))) =
      database (connectionConfig (databaseUrl_defaults (u\<lparr>password := q\<rparr>)))"
    by (simp add: databaseUrl_defaults_password connectionConfig_database_password)
  show ?thesis
    using ListResources_database [OF db]
    by (simp add: base [OF p] base [OF q])
qed

theorem resources_independent_of_password_witness:
  "password (resourceBaseUrl (databaseUrl_defaults ((test_URL ''/shop'')\<lparr>password := ''secret''\<rparr>))) = '''' \<and>
   fst (ListResources test_runtime test_server
          (connectionConfig (databaseUrl_defaults ((test_URL ''/shop'')\<lparr>password := ''secret''\<rparr>)))
          (resourceBaseUrl (databaseUrl_defaults ((test_URL ''/shop'')\<lparr>password := ''secret''\<rparr>)))
          (test_world False)) =
     Inr (JObj [(''resources'',
            JArr [JObj [(''uri'', JStr ''mysql://root@localhost/orders/schema''),
                        (''mimeType'', JStr ''application/json''),
                        (''name'', JStr (CHR 0x22 # ''orders'' @ CHR 0x22 # '' database schema''))]])]) \<and>
   ListResources test_runtime test_server
       (connectionConfig (databaseUrl_defaults ((test_URL ''/shop'')\<lparr>password := ''secret''\<rparr>)))
       (resourceBaseUrl (databaseUrl_defaults ((test_URL ''/shop'')\<lparr>password := ''secret''\<rparr>)))
       (test_world False) =
     ListResources test_runtime test_server
       (connectionConfig (databaseUrl_defaults ((test_URL ''/shop'')\<lparr>password := ''hunter2''\<rparr>)))
       (resourceBaseUrl (databaseUrl_defaults ((test_URL ''/shop'')\<lparr>password := ''hunter2''\<rparr>)))
       (test_world False)"
proof -
  have h: "cannot_have_credentials (test_URL ''/shop'') \<longrightarrow> ''secret'' = '''' \<and> ''hunter2'' = ''''"
    by (simp add: cannot_have_credentials_def test_URL_def)
  from resources_independent_of_password [OF h, of test_runtime test_server "test_world False"]
  show ?thesis
    by (simp add: test_base test_ListResources)
qed

text \<open>
  C9. When the last segment of the path of the requested URI is not \<^verbatim>\<open>schema\<close>, reading
  the resource fails with \<^verbatim>\<open>Invalid resource URI\<close> and the state is untouched: no
  connection was asked for. When the path ends in a segment \<open>t\<close> followed by
  \<^verbatim>\<open>schema\<close>, the one query the handler sends has \<open>t\<close> as its table name.
\<close>

theorem ReadResource_schema_segment:
  "(URL_new rt uri = Some u \<and> last (str_split CHR ''/'' (pathname u)) \<noteq> ''schema'' \<longrightarrow>
      ReadResource rt drv cfg uri w = (Inl (Error ''Invalid resource URI''), w)) \<and>
   (URL_new rt uri = Some u \<and> str_split CHR ''/'' (pathname u) = pre @ [t, ''schema''] \<longrightarrow>
      calls (snd (ReadResource rt drv cfg uri w)) =
        calls w @ GetConnection #
          (if isl (fst (drv GetConnection (server w))) then []
           else [QueryValues ''SELECT COLUMN_NAME as column_name, DATA_TYPE as data_type FROM information_schema.columns WHERE table_name = ? AND table_schema = ?''
                   [Some t, Some (database cfg)],
                 Release]))"
proof (intro conjI impI)
  assume a: "URL_new rt uri = Some u \<and> last (str_split CHR ''/'' (pathname u)) \<noteq> ''schema''"
  then have "fst (pop (str_split CHR ''/'' (pathname u))) \<noteq> Some SCHEMA_PATH"
    by (simp add: pop_last str_split_not_Nil SCHEMA_PATH_def)
  with a show "ReadResource rt drv cfg uri w = (Inl (Error ''Invalid resource URI''), w)"
    by (simp add: ReadResource_invalid)
next
  assume a: "URL_new rt uri = Some u \<and> str_split CHR ''/'' (pathname u) = pre @ [t, ''schema'']"
  then have s: "str_split CHR ''/'' (pathname u) = (pre @ [t]) @ [''schema'']" by simp
  have "fst (pop (str_split CHR ''/'' (pathname u))) = Some SCHEMA_PATH"
    unfolding s pop_snoc by (simp add: SCHEMA_PATH_def)
  moreover have "fst (pop (snd (pop (str_split CHR ''/'' (pathname u))))) = Some t"
    unfolding s pop_snoc by (simp add: pop_snoc)
  ultimately show "calls (snd (ReadResource rt drv cfg uri w)) =
        calls w @ GetConnection #
          (if isl (fst (drv GetConnection (server w))) then []
           else [QueryValues ''SELECT COLUMN_NAME as column_name, DATA_TYPE as data_type FROM information_schema.columns WHERE table_name = ? AND table_schema = ?''
                   [Some t, Some (database cfg)],
                 Release])"
    using a ReadResource_calls [of rt uri u drv cfg w] by simp
qed

theorem ReadResource_schema_segment_witness:
  "ReadResource test_runtime test_server (connectionConfig (test_URL ''/shop''))
     ''mysql://root@localhost/orders/rows'' (test_world False) =
     (Inl (Error ''Invalid resource URI''), test_world False) \<and>
   calls (snd (ReadResource test_runtime test_server (connectionConfig (test_URL ''/shop''))
                 ''mysql://root@localhost/orders/schema'' (test_world False))) =
     [GetConnection,
      QueryValues ''SELECT COLUMN_NAME as column_name, DATA_TYPE as data_type FROM information_schema.columns WHERE table_name = ? AND table_schema = ?''
        [Some ''orders'', Some ''shop''],
      Release]"
  using ReadResource_schema_segment [where rt = test_runtime
      and uri = "''mysql://root@localhost/orders/rows''" and u = "test_URL ''/orders/rows''"
      and drv = test_server and cfg = "connectionConfig (test_URL ''/shop'')"
      and w = "test_world False"]
    ReadResource_schema_segment [where rt = test_runtime
      and uri = "''mysql://root@localhost/orders/schema''" and u = "test_URL ''/orders/schema''"
      and pre = "[[]]" and t = "''orders''"
      and drv = test_server and cfg = "connectionConfig (test_URL ''/shop'')"
      and w = "test_world False"]
  by (simp add: test_runtime_def test_URL_new_def test_URL_def connectionConfig_def strip_slash_def
      test_server_simps test_world_def)

text \<open>
  C10, as amended. Besides the caller's text the query tool issues only
  \<^verbatim>\<open>SET SESSION TRANSACTION READ ONLY\<close>, the begin, the rollback and the release, and
  nothing that would reset the access mode. So when the setting succeeded and put the
  session in read-only mode, and the server keeps the mode across the begin, the caller's
  statement, the rollback and the release, the connection goes back to the pool in
  read-only mode.
\<close>

theorem read_only_mode_kept:
  assumes "drv GetConnection (server w) = (Inr c, s0)"
    and "drv SET_READ_ONLY s0 = (Inr r1, s1)"
    and "ro s1"
    and "\<forall>s. ro s \<longrightarrow> ro (snd (drv BeginTransaction s))"
    and "\<forall>s. ro s \<longrightarrow> ro (snd (drv (Query sql) s))"
    and "\<forall>s. ro s \<longrightarrow> ro (snd (drv Rollback s))"
    and "\<forall>s. ro s \<longrightarrow> ro (snd (drv Release s))"
  shows "ro (server (snd (CallTool rt drv ''query'' sql w))) \<and>
         set (calls (snd (CallTool rt drv ''query'' sql w))) \<subseteq>
           set (calls w) \<union>
           {GetConnection, SET_READ_ONLY, BeginTransaction, Query sql, Rollback, Release}"
proof -
  have "ro (server (snd (CallTool rt drv ''query'' sql w)))"
    using assms by (simp add: CallTool_server Let_def)
  with CallTool_calls_among [of rt drv sql w] show ?thesis by simp
qed

theorem read_only_mode_kept_witness:
  "\<not> read_only (server (test_world False)) \<and>
   read_only (server (snd (CallTool test_runtime test_server ''query'' ''SELECT 1 AS a, 2 AS b''
                             (test_world False))))"
  using read_only_mode_kept [where drv = test_server and w = "test_world False" and c = JNull
      and ?s0.0 = "server (test_world False)" and ?r1.0 = JNull
      and ?s1.0 = "(server (test_world False))\<lparr>read_only := True\<rparr>" and ro = read_only
      and sql = "''SELECT 1 AS a, 2 AS b''" and rt = test_runtime]
  by (simp add: test_server_simps test_world_def)

text \<open>
  The claim as it was stated fails when the caller's text itself sets the access mode: the
  tool passes \<^verbatim>\<open>SET SESSION TRANSACTION READ WRITE\<close> to the server like any other
  text, and the connection is released with the mode cleared.
\<close>

theorem read_only_mode_cleared_counterexample:
  "calls (snd (CallTool test_runtime test_server ''query'' ''SET SESSION TRANSACTION READ WRITE''
                 (test_world False))) =
     [GetConnection, SET_READ_ONLY, BeginTransaction,
      Query ''SET SESSION TRANSACTION READ WRITE'', Rollback, Release] \<and>
   fst (CallTool test_runtime test_server ''query'' ''SET SESSION TRANSACTION READ WRITE''
          (test_world False)) =
     Inr (JObj [(''content'',
             JArr [JObj [(''type'', JStr ''text''), (''text'', JStr ''null'')]]),
           (''isError'', JBool False)]) \<and>
   \<not> read_only (server (snd (CallTool test_runtime test_server ''query''
                                ''SET SESSION TRANSACTION READ WRITE'' (test_world False))))"
proof -
  have acq: "\<not> isl (fst (test_server GetConnection (server (test_world False))))"
    by (simp add: test_server_simps)
  show ?thesis
    using acq
    by (simp add: CallTool_query_acquired CallTool_finally_sel CallTool_try_calls
        CallTool_try_fst CallTool_try_server pool_getConnection_sel Let_def test_server_simps
        test_world_def test_runtime_def)
qed

end
